theory Spec2Isabelle
  imports Complex_Main
begin

section \<open>Solana swap discovery: data\<close>

text \<open>
  The errors the modelled code can end in. \<open>PendingTxError\<close> is thrown by the
  claim and refund finders with its message; \<open>TypeError\<close> is what JavaScript
  raises on a property read of \<open>null\<close>/\<open>undefined\<close> or on calling an absent
  function; \<open>CollaboratorError\<close> stands for a rejected promise of one of the
  collaborators reached through \<open>getMethod\<close>.
\<close>

datatype error = PendingTxError string | TypeError | CollaboratorError

text \<open>
  The names are those of the source; the leading underscore of the private
  methods and of the field \<open>_raw\<close> is dropped.

  \<open>SwapParams\<close> of \<open>@liquality/types\<close>. The two addresses are either plain
  strings or \<open>Address\<close> objects (the initiate finder converts with
  \<open>addressToString\<close>; the wallet provider builds \<open>new Address({address, ...})\<close>).
  \<open>BigNumber\<close> values are modelled by \<open>int\<close>.
\<close>

datatype address = AddressString string | AddressObject string

record swapParams =
  "value" :: int
  recipientAddress :: address
  refundAddress :: address
  secretHash :: string
  expiration :: int

text \<open>
  The chain-specific payload \<open>_raw\<close> of a parsed transaction, with the fields
  the two validation functions declare for their second argument, and the
  instruction tag.
\<close>

record rawData =
  instruction :: int
  buyer :: string
  seller :: string
  secret_hash :: string
  "value" :: int
  expiration :: int
  secret :: string

text \<open>
  A parsed transaction as the batch fetch returns it. \<open>_raw\<close> may be missing
  (the scan reads it with \<open>?.\<close>), and so may the top-level \<open>secret\<close>.
\<close>

record transaction =
  hash :: string
  secret :: "string option"
  raw :: "rawData option"

record pastTx =
  signature :: string

text \<open>The private \<open>instructions\<close> table of the provider.\<close>

definition instructions_init :: int where
  "instructions_init = 0"

definition instructions_claim :: int where
  "instructions_claim = 1"

definition instructions_refund :: int where
  "instructions_refund = 2"

section \<open>The validation functions\<close>

text \<open>\<open>===\<close> between an address of the swap parameters and a string of the payload:
  an \<open>Address\<close> object is never strictly equal to a string.\<close>

fun strictEquals :: "address \<Rightarrow> string \<Rightarrow> bool" where
  "strictEquals (AddressString s) t = (s = t)"
| "strictEquals (AddressObject a) t = False"

definition compareParams :: "swapParams \<Rightarrow> rawData \<Rightarrow> bool" where
  "compareParams swapParams initTxParams =
     (strictEquals (recipientAddress swapParams) (buyer initTxParams) \<and>
      strictEquals (refundAddress swapParams) (seller initTxParams) \<and>
      secretHash swapParams = secret_hash initTxParams \<and>
      swapParams.value swapParams = rawData.value initTxParams \<and>
      swapParams.expiration swapParams = rawData.expiration initTxParams)"

text \<open>\<open>sha256\<close> of \<open>@liquality/crypto\<close> is a parameter.\<close>

definition validateSecret :: "(string \<Rightarrow> string) \<Rightarrow> swapParams \<Rightarrow> rawData \<Rightarrow> bool" where
  "validateSecret sha256 swapParams data = (secretHash swapParams = sha256 (rawData.secret data))"

section \<open>Batching the address history\<close>

definition MAX_NUMBER_OF_REQUESTS :: nat where
  "MAX_NUMBER_OF_REQUESTS = 100"

text \<open>\<open>batches[currentBatch].push(s)\<close>: a read outside the array gives
  \<open>undefined\<close>, and the call of \<open>push\<close> on it raises.\<close>

definition pushAt :: "string list list \<Rightarrow> nat \<Rightarrow> string \<Rightarrow> error + string list list" where
  "pushAt batches currentBatch s =
     (if currentBatch < length batches
      then Inr (batches[currentBatch := batches ! currentBatch @ [s]])
      else Inl TypeError)"

text \<open>The \<open>forEach\<close> over the history, with the index \<open>idx\<close> of the element
  and the two variables the callback updates.\<close>

fun batchForEach ::
  "pastTx list \<Rightarrow> nat \<Rightarrow> string list list \<Rightarrow> nat \<Rightarrow> error + string list list" where
  "batchForEach [] idx batches currentBatch = Inr batches"
| "batchForEach (pastTx # rest) idx batches currentBatch =
     (if idx \<noteq> 0 \<and> idx mod MAX_NUMBER_OF_REQUESTS = 0
      then (case pushAt (batches @ [[]]) (currentBatch + 1) (signature pastTx) of
              Inl e \<Rightarrow> Inl e
            | Inr batches' \<Rightarrow> batchForEach rest (idx + 1) batches' (currentBatch + 1))
      else (case pushAt batches currentBatch (signature pastTx) of
              Inl e \<Rightarrow> Inl e
            | Inr batches' \<Rightarrow> batchForEach rest (idx + 1) batches' currentBatch))"

definition batchSignatures :: "pastTx list \<Rightarrow> error + string list list" where
  "batchSignatures addressHistory = batchForEach addressHistory 0 [[]] 0"

section \<open>Scanning an address history\<close>

text \<open>
  The collaborators behind \<open>getMethod\<close> are parameters. A call either resolves
  with a value or is rejected. The batch fetch resolves with one entry per
  reference; an entry can be \<open>null\<close> (the finders test \<open>!initTransaction\<close> on
  the first one).
\<close>

datatype 'a promise = Resolved 'a | Rejected

record rpc =
  getAddressHistory :: "string \<Rightarrow> pastTx list promise"
  getParsedAndConfirmedTransactions :: "string list \<Rightarrow> transaction option list promise"

text \<open>The collaborator calls a function issues, in the order it issues them.\<close>

datatype call = GetAddressHistory string | GetParsedAndConfirmedTransactions "string list"

type_synonym validation = "swapParams \<Rightarrow> rawData \<Rightarrow> bool"

text \<open>\<open>Promise.all\<close>: the list of the values, or a rejection when one of the
  promises is rejected (all rejections are the same error here, so which of
  them comes first does not show).\<close>

fun promiseAll :: "'a promise list \<Rightarrow> error + 'a list" where
  "promiseAll [] = Inr []"
| "promiseAll (Rejected # ps) = Inl CollaboratorError"
| "promiseAll (Resolved x # ps) =
     (case promiseAll ps of Inl e \<Rightarrow> Inl e | Inr xs \<Rightarrow> Inr (x # xs))"

text \<open>
  The inner loop over \<open>matrix[i]\<close>. The result \<open>Inr None\<close> means that the row
  ended with \<open>initTransaction\<close> still undefined. Reading \<open>_raw\<close> of a \<open>null\<close>
  entry raises, and so does calling an absent \<open>validation\<close>. The assignment
  \<open>initTransaction.secret = data.secret\<close> is made on the object \<open>data\<close> itself.
\<close>

fun scanRow ::
  "validation option \<Rightarrow> swapParams \<Rightarrow> int \<Rightarrow> transaction option list \<Rightarrow> error + transaction option" where
  "scanRow validation swapParams instr [] = Inr None"
| "scanRow validation swapParams instr (None # rest) = Inl TypeError"
| "scanRow validation swapParams instr (Some data # rest) =
     (case raw data of
        None \<Rightarrow> scanRow validation swapParams instr rest
      | Some payload \<Rightarrow>
          if instruction payload = instr then
            (if instr = instructions_refund then Inr (Some data)
             else (case validation of
                     None \<Rightarrow> Inl TypeError
                   | Some v \<Rightarrow>
                       if v swapParams payload
                       then (let initTransaction = data
                             in Inr (Some (initTransaction\<lparr>secret := secret data\<rparr>)))
                       else scanRow validation swapParams instr rest))
          else scanRow validation swapParams instr rest)"

text \<open>The outer loop, which stops at the first row that set \<open>initTransaction\<close>.\<close>

fun scanMatrix ::
  "validation option \<Rightarrow> swapParams \<Rightarrow> int \<Rightarrow> transaction option list list \<Rightarrow> error + transaction option" where
  "scanMatrix validation swapParams instr [] = Inr None"
| "scanMatrix validation swapParams instr (row # rows) =
     (case scanRow validation swapParams instr row of
        Inl e \<Rightarrow> Inl e
      | Inr (Some initTransaction) \<Rightarrow> Inr (Some initTransaction)
      | Inr None \<Rightarrow> scanMatrix validation swapParams instr rows)"

text \<open>
  \<open>_findTransactionByAddress\<close>: the result, and the collaborator calls issued.
  All batch fetches are issued by the \<open>map\<close> before any of them is awaited.
\<close>

definition findTransactionByAddress ::
  "rpc \<Rightarrow> string \<Rightarrow> swapParams \<Rightarrow> int \<Rightarrow> validation option
     \<Rightarrow> (error + transaction option) \<times> call list" where
  "findTransactionByAddress rpc addr swapParams instr validation =
     (case getAddressHistory rpc addr of
        Rejected \<Rightarrow> (Inl CollaboratorError, [GetAddressHistory addr])
      | Resolved addressHistory \<Rightarrow>
          (case batchSignatures addressHistory of
             Inl e \<Rightarrow> (Inl e, [GetAddressHistory addr])
           | Inr batch \<Rightarrow>
               (let parsedTransactions = map (getParsedAndConfirmedTransactions rpc) batch;
                    calls = GetAddressHistory addr # map GetParsedAndConfirmedTransactions batch
                in (case promiseAll parsedTransactions of
                      Inl e \<Rightarrow> (Inl e, calls)
                    | Inr matrix \<Rightarrow> (scanMatrix validation swapParams instr matrix, calls)))))"

text \<open>\<open>addressToString\<close> of \<open>@liquality/utils\<close> is a parameter.\<close>

definition findInitiateSwapTransaction ::
  "(address \<Rightarrow> string) \<Rightarrow> rpc \<Rightarrow> swapParams \<Rightarrow> (error + transaction option) \<times> call list" where
  "findInitiateSwapTransaction addressToString rpc swapParams =
     findTransactionByAddress rpc (addressToString (refundAddress swapParams)) swapParams
       instructions_init (Some compareParams)"

definition pendingTxError :: "string \<Rightarrow> error" where
  "pendingTxError initiationTxHash =
     PendingTxError (''Transaction receipt is not available: '' @ initiationTxHash)"

text \<open>
  The claim and refund finders first fetch the initiation transaction. The
  pattern \<open>[initTransaction]\<close> takes the first entry, \<open>undefined\<close> for an empty
  array; the pattern \<open>{_raw: {buyer}}\<close> raises when \<open>_raw\<close> is missing.
\<close>

definition findClaimSwapTransaction ::
  "(string \<Rightarrow> string) \<Rightarrow> rpc \<Rightarrow> swapParams \<Rightarrow> string \<Rightarrow> (error + transaction option) \<times> call list" where
  "findClaimSwapTransaction sha256 rpc swapParams initiationTxHash =
     (let calls = [GetParsedAndConfirmedTransactions [initiationTxHash]]
      in (case getParsedAndConfirmedTransactions rpc [initiationTxHash] of
            Rejected \<Rightarrow> (Inl CollaboratorError, calls)
          | Resolved [] \<Rightarrow> (Inl (pendingTxError initiationTxHash), calls)
          | Resolved (None # _) \<Rightarrow> (Inl (pendingTxError initiationTxHash), calls)
          | Resolved (Some initTransaction # _) \<Rightarrow>
              (case raw initTransaction of
                 None \<Rightarrow> (Inl TypeError, calls)
               | Some payload \<Rightarrow>
                   (let (found, scanCalls) =
                          findTransactionByAddress rpc (buyer payload) swapParams
                            instructions_claim (Some (validateSecret sha256))
                    in (found, calls @ scanCalls)))))"

definition findRefundSwapTransaction ::
  "rpc \<Rightarrow> swapParams \<Rightarrow> string \<Rightarrow> (error + transaction option) \<times> call list" where
  "findRefundSwapTransaction rpc swapParams initiationTxHash =
     (let calls = [GetParsedAndConfirmedTransactions [initiationTxHash]]
      in (case getParsedAndConfirmedTransactions rpc [initiationTxHash] of
            Rejected \<Rightarrow> (Inl CollaboratorError, calls)
          | Resolved [] \<Rightarrow> (Inl (pendingTxError initiationTxHash), calls)
          | Resolved (None # _) \<Rightarrow> (Inl (pendingTxError initiationTxHash), calls)
          | Resolved (Some initTransaction # _) \<Rightarrow>
              (case raw initTransaction of
                 None \<Rightarrow> (Inl TypeError, calls)
               | Some payload \<Rightarrow>
                   (let (found, scanCalls) =
                          findTransactionByAddress rpc (seller payload) swapParams
                            instructions_refund None
                    in (found, calls @ scanCalls)))))"

text \<open>
  The acceptance rule in the words of the design: the tag of the payload is
  the requested one, and either the tag is the refund tag or the predicate
  holds of the swap parameters and the payload.
\<close>

definition accepted :: "validation \<Rightarrow> swapParams \<Rightarrow> int \<Rightarrow> transaction \<Rightarrow> bool" where
  "accepted v swapParams tag tx =
     (case raw tx of
        None \<Rightarrow> False
      | Some payload \<Rightarrow>
          instruction payload = tag \<and> (tag = instructions_refund \<or> v swapParams payload))"

text \<open>The transactions of a history in history order: the rows the batch fetch
  resolves with, one after the other.\<close>

definition fetchedRow :: "rpc \<Rightarrow> string list \<Rightarrow> transaction list" where
  "fetchedRow rpc sp =
     (case getParsedAndConfirmedTransactions rpc sp of
        Rejected \<Rightarrow> []
      | Resolved row \<Rightarrow> List.map_filter id row)"

text \<open>A batch fetch that resolves, with no \<open>null\<close> among its entries.\<close>

definition resolvesWithoutNull :: "rpc \<Rightarrow> string list \<Rightarrow> bool" where
  "resolvesWithoutNull rpc sp =
     (case getParsedAndConfirmedTransactions rpc sp of
        Rejected \<Rightarrow> False
      | Resolved row \<Rightarrow> None \<notin> set row)"

definition historyTransactions :: "rpc \<Rightarrow> pastTx list \<Rightarrow> transaction list" where
  "historyTransactions rpc addressHistory =
     (case batchSignatures addressHistory of
        Inl e \<Rightarrow> []
      | Inr batch \<Rightarrow> concat (map (fetchedRow rpc) batch))"

section \<open>JavaScript numbers\<close>

text \<open>
  A JavaScript number is an IEEE 754 double: a rational with a significand of
  53 bits and an exponent between \<open>-1022\<close> and \<open>1023\<close>, an infinity, or
  \<open>NaN\<close>. The two zeros are not told apart (\<open>===\<close> does not tell them apart
  either). Every arithmetic operation gives the double nearest to the exact
  result, a tie going to the even significand.
\<close>

datatype number = Finite rat | PlusInfinity | MinusInfinity | NaN












section \<open>Bitcoin utilities: fee and coin selection\<close>


text \<open>In \<open>selectCoins\<close> the fee rate is a finite number, and \<open>Math.ceil\<close> of a
  finite number is exact.\<close>

record utxo =
  txid :: string
  vout :: nat
  "value" :: int

text \<open>
  What a selection strategy of the \<open>coinselect\<close> package returns: \<open>inputs\<close>
  and \<open>outputs\<close> are left out when it finds no solution. The two strategies
  are parameters; they receive the candidates, the targets and the fee rate.
\<close>

record 'o coinSelection =
  inputs :: "utxo list option"
  outputs :: "'o list option"
  fee :: int

type_synonym ('t, 'o) strategy = "utxo list \<Rightarrow> 't list \<Rightarrow> int \<Rightarrow> 'o coinSelection"

text \<open>The strategy chosen, and the value of \<open>selectUtxos\<close> at the call of the
  strategy. \<open>find\<close> gives the first fixed input with the \<open>vout\<close> and the
  \<open>txid\<close> of the candidate, or \<open>undefined\<close>.\<close>

definition coinselectStrat ::
  "('t, 'o) strategy \<Rightarrow> ('t, 'o) strategy \<Rightarrow> utxo list \<Rightarrow> ('t, 'o) strategy" where
  "coinselectStrat coinselect coinselectAccumulative fixedInputs =
     (if length fixedInputs \<noteq> 0 then coinselectAccumulative else coinselect)"

definition selectUtxos :: "utxo list \<Rightarrow> utxo list \<Rightarrow> utxo list" where
  "selectUtxos utxos fixedInputs =
     (if length fixedInputs \<noteq> 0
      then fixedInputs @
           filter (\<lambda>utxo. find (\<lambda>input. vout input = vout utxo \<and> txid input = txid utxo) fixedInputs = None)
             utxos
      else utxos)"

text \<open>The parameter \<open>fixedInputs = []\<close>: \<open>None\<close> is a call that leaves the
  argument out.\<close>

definition defaultFixedInputs :: "utxo list option \<Rightarrow> utxo list" where
  "defaultFixedInputs fixedInputsArg =
     (case fixedInputsArg of None \<Rightarrow> [] | Some given \<Rightarrow> given)"

definition selectCoins ::
  "('t, 'o) strategy \<Rightarrow> ('t, 'o) strategy \<Rightarrow> utxo list \<Rightarrow> 't list \<Rightarrow> rat \<Rightarrow> utxo list option
     \<Rightarrow> 'o coinSelection" where
  "selectCoins coinselect coinselectAccumulative utxos targets feePerByte fixedInputsArg =
     (let fixedInputs = defaultFixedInputs fixedInputsArg;
          selected = coinselectStrat coinselect coinselectAccumulative fixedInputs
                       (selectUtxos utxos fixedInputs) targets \<lceil>feePerByte\<rceil>
      in \<lparr>inputs = inputs selected, outputs = outputs selected, fee = fee selected\<rparr>)"

section \<open>Bitcoin utilities: the normalised transaction\<close>

record txOutput =
  "value" :: rat

record bitcoinTransaction =
  txid :: string
  vsize :: nat
  vout :: "txOutput list"
  confirmations :: "nat option"

record block =
  hash :: string
  number :: int

text \<open>
  The result object. A key that \<open>Object.assign\<close> never set is \<open>None\<close>;
  \<open>confirmations\<close> is set from the start, and overwritten with the
  \<open>confirmations\<close> of the transaction (which may be \<open>undefined\<close>) when a block
  is given. The \<open>value\<close> of an output is the decimal that \<open>new BigNumber\<close>
  reads from the number; the sum is exact, and \<open>toNumber\<close> gives the double
  nearest to it.
\<close>

record normalizedTransaction =
  hash :: string
  "value" :: number
  raw :: bitcoinTransaction
  confirmations :: "nat option"
  fee :: "number option"
  feePrice :: "number option"
  blockHash :: "string option"
  blockNumber :: "int option"


section \<open>Example data\<close>

definition exampleParams :: swapParams where
  "exampleParams =
     \<lparr>swapParams.value = 1000, recipientAddress = AddressString ''buyer'',
      refundAddress = AddressString ''seller'', secretHash = ''abcd'',
      swapParams.expiration = 1700000000\<rparr>"

definition transferTx :: transaction where
  "transferTx = \<lparr>transaction.hash = ''s1'', secret = None, transaction.raw = None\<rparr>"

definition otherInitData :: rawData where
  "otherInitData =
     \<lparr>instruction = 0, buyer = ''buyer'', seller = ''seller'', secret_hash = ''abcd'',
      rawData.value = 999, rawData.expiration = 1700000000, rawData.secret = ''''\<rparr>"

definition matchingInitData :: rawData where
  "matchingInitData =
     \<lparr>instruction = 0, buyer = ''buyer'', seller = ''seller'', secret_hash = ''abcd'',
      rawData.value = 1000, rawData.expiration = 1700000000, rawData.secret = ''''\<rparr>"

definition claimData :: rawData where
  "claimData =
     \<lparr>instruction = 1, buyer = ''buyer'', seller = ''seller'', secret_hash = '''',
      rawData.value = 0, rawData.expiration = 0, rawData.secret = ''s3cr3t''\<rparr>"

definition otherInitTx :: transaction where
  "otherInitTx = \<lparr>transaction.hash = ''s2'', secret = None, transaction.raw = Some otherInitData\<rparr>"

definition matchingInitTx :: transaction where
  "matchingInitTx = \<lparr>transaction.hash = ''s3'', secret = None, transaction.raw = Some matchingInitData\<rparr>"

definition claimTx :: transaction where
  "claimTx = \<lparr>transaction.hash = ''c1'', secret = None, transaction.raw = Some claimData\<rparr>"

definition exampleHistory :: "string \<Rightarrow> pastTx list promise" where
  "exampleHistory addr =
     (if addr = ''seller'' then Resolved [\<lparr>signature = ''s1''\<rparr>, \<lparr>signature = ''s2''\<rparr>, \<lparr>signature = ''s3''\<rparr>]
      else if addr = ''buyer'' then Resolved [\<lparr>signature = ''c1''\<rparr>]
      else Resolved [])"

definition exampleLookup :: "string \<Rightarrow> transaction option" where
  "exampleLookup sig =
     (if sig = ''s1'' then Some transferTx
      else if sig = ''s2'' then Some otherInitTx
      else if sig = ''s3'' then Some matchingInitTx
      else if sig = ''c1'' then Some claimTx
      else None)"

text \<open>A stand-in for the hash function, for the examples.\<close>

definition exampleHash :: "string \<Rightarrow> string" where
  "exampleHash s = rev s"

definition exampleRpc :: rpc where
  "exampleRpc =
     \<lparr>getAddressHistory = exampleHistory,
      getParsedAndConfirmedTransactions = (\<lambda>sp. Resolved (map exampleLookup sp))\<rparr>"

definition utxoA :: utxo where
  "utxoA = \<lparr>utxo.txid = ''aa'', utxo.vout = 0, utxo.value = 5000\<rparr>"

definition utxoB :: utxo where
  "utxoB = \<lparr>utxo.txid = ''bb'', utxo.vout = 1, utxo.value = 3000\<rparr>"

definition utxoC :: utxo where
  "utxoC = \<lparr>utxo.txid = ''bb'', utxo.vout = 0, utxo.value = 1000\<rparr>"

text \<open>
  Two stand-ins for the strategies, with amounts for targets and outputs. The
  first answers as \<open>coinselect\<close> does when the candidates cannot cover the
  targets: a fee for all the candidates and no selection. The second selects
  every candidate.
\<close>

definition noSolution :: "(int, int) strategy" where
  "noSolution candidates targets feeRate =
     \<lparr>inputs = None, outputs = None,
      coinSelection.fee = feeRate * (148 * int (length candidates) + 34 * int (length targets) + 10)\<rparr>"

definition spendAll :: "(int, int) strategy" where
  "spendAll candidates targets feeRate =
     \<lparr>inputs = Some candidates, outputs = Some targets,
      coinSelection.fee = feeRate * (148 * int (length candidates) + 34 * int (length targets) + 10)\<rparr>"


definition exampleBlock :: block where
  "exampleBlock = \<lparr>block.hash = ''00ff'', number = 700000\<rparr>"

section \<open>Properties of the batcher\<close>

lemma pushAt_last:
  "pushAt (bs @ [b]) (length bs) s = Inr (bs @ [b @ [s]])"
  by (simp add: pushAt_def)

lemma batchForEach_invariant:
  assumes "\<forall>c \<in> set bs. length c = 100"
    and "length b \<le> 100"
    and "b = [] \<longrightarrow> bs = []"
    and "idx = 100 * length bs + length b"
  shows "\<exists>bs' b'. batchForEach rest idx (bs @ [b]) (length bs) = Inr (bs' @ [b'])
           \<and> (\<forall>c \<in> set bs'. length c = 100)
           \<and> length b' \<le> 100
           \<and> (b' = [] \<longrightarrow> bs' = [])
           \<and> concat (bs' @ [b']) = concat (bs @ [b]) @ map signature rest"
  using assms
proof (induction rest arbitrary: bs b idx)
  case Nil
  then show ?case by auto
next
  case (Cons pastTx rest)
  show ?case
  proof (cases "length b = 100")
    case True
    with Cons.prems have cond: "idx \<noteq> 0 \<and> idx mod MAX_NUMBER_OF_REQUESTS = 0"
      by (simp add: MAX_NUMBER_OF_REQUESTS_def)
    have push: "pushAt ((bs @ [b]) @ [[]]) (length bs + 1) (signature pastTx)
                  = Inr ((bs @ [b]) @ [[signature pastTx]])"
      using pushAt_last [of "bs @ [b]" "[]" "signature pastTx"] by simp
    have "\<exists>bs' b'. batchForEach rest (idx + 1) ((bs @ [b]) @ [[signature pastTx]]) (length (bs @ [b]))
              = Inr (bs' @ [b'])
           \<and> (\<forall>c \<in> set bs'. length c = 100)
           \<and> length b' \<le> 100
           \<and> (b' = [] \<longrightarrow> bs' = [])
           \<and> concat (bs' @ [b']) = concat ((bs @ [b]) @ [[signature pastTx]]) @ map signature rest"
      using Cons.prems True by (intro Cons.IH) auto
    then show ?thesis
      using cond push by auto
  next
    case False
    with Cons.prems have lt: "length b < 100" by simp
    have cond: "\<not> (idx \<noteq> 0 \<and> idx mod MAX_NUMBER_OF_REQUESTS = 0)"
    proof (cases "b = []")
      case True
      with Cons.prems show ?thesis by simp
    next
      case False
      then have "0 < length b" by simp
      with lt Cons.prems show ?thesis
        by (simp add: MAX_NUMBER_OF_REQUESTS_def)
    qed
    have "\<exists>bs' b'. batchForEach rest (idx + 1) (bs @ [b @ [signature pastTx]]) (length bs)
              = Inr (bs' @ [b'])
           \<and> (\<forall>c \<in> set bs'. length c = 100)
           \<and> length b' \<le> 100
           \<and> (b' = [] \<longrightarrow> bs' = [])
           \<and> concat (bs' @ [b']) = concat (bs @ [b @ [signature pastTx]]) @ map signature rest"
      using Cons.prems lt by (intro Cons.IH) auto
    then show ?thesis
      using cond pushAt_last [of bs b "signature pastTx"] by auto
  qed
qed

lemma batchSignatures_shape:
  "\<exists>bs b. batchSignatures h = Inr (bs @ [b])
     \<and> (\<forall>c \<in> set bs. length c = 100)
     \<and> length b \<le> 100
     \<and> (b = [] \<longrightarrow> bs = [])
     \<and> concat (bs @ [b]) = map signature h"
  using batchForEach_invariant [of "[]" "[]" 0 h]
  by (simp add: batchSignatures_def)

lemma length_concat_uniform:
  "\<forall>c \<in> set bs. length c = k \<Longrightarrow> length (concat bs) = k * length bs"
  by (induction bs) auto

lemma map_length_uniform:
  "\<forall>c \<in> set bs. length c = k \<Longrightarrow> map length bs = replicate (length bs) k"
  by (induction bs) auto

lemma batchSignatures_sizes:
  assumes "batchSignatures h = Inr batches"
  shows "map length batches =
           replicate ((length h - 1) div 100) 100 @ [length h - 100 * ((length h - 1) div 100)]"
proof -
  from batchSignatures_shape [of h] assms obtain bs b where
    eq: "batches = bs @ [b]" and full: "\<forall>c \<in> set bs. length c = 100"
    and le: "length b \<le> 100" and ne: "b = [] \<longrightarrow> bs = []"
    and cat: "concat (bs @ [b]) = map signature h"
    by auto
  have "length (concat (bs @ [b])) = length h"
    using cat by simp
  then have n: "length h = 100 * length bs + length b"
    using length_concat_uniform [OF full] by simp
  have k: "(length h - 1) div 100 = length bs"
  proof (cases "b = []")
    case True
    with ne n show ?thesis by simp
  next
    case False
    then obtain l where "length b = Suc l" by (cases b) auto
    with n le have "length h - 1 = l + length bs * 100" and "l < 100"
      by simp_all
    then show ?thesis by simp
  qed
  have "map length batches = replicate (length bs) 100 @ [length b]"
    using eq map_length_uniform [OF full] by simp
  with k n show ?thesis by simp
qed

text \<open>
  C8. For every history the batcher returns batches (it never raises) that,
  put one after the other, are the signatures of the history in their order;
  no batch has more than 100 signatures and every batch but the last has
  exactly 100. A history of 250 entries gives three batches, of 100, 100 and
  50 signatures.
\<close>

theorem batchSignatures_partition:
  "\<exists>batches. batchSignatures h = Inr batches
     \<and> concat batches = map signature h
     \<and> (\<forall>c \<in> set batches. length c \<le> 100)
     \<and> (\<forall>c \<in> set (butlast batches). length c = 100)
     \<and> (length h = 250 \<longrightarrow> map length batches = [100, 100, 50])"
proof -
  from batchSignatures_shape [of h] obtain bs b where
    eq: "batchSignatures h = Inr (bs @ [b])" and full: "\<forall>c \<in> set bs. length c = 100"
    and le: "length b \<le> 100" and cat: "concat (bs @ [b]) = map signature h"
    by blast
  have sizes: "map length (bs @ [b]) = [100, 100, 50]" if "length h = 250"
  proof -
    from that have "(length h - 1) div 100 = 2" and "length h - 100 * 2 = 50"
      by simp_all
    with batchSignatures_sizes [OF eq]
    have "map length (bs @ [b]) = replicate 2 100 @ [50]"
      by (simp only:)
    then show ?thesis
      by (simp only: numeral_2_eq_2 replicate.simps append.simps)
  qed
  have bound: "\<forall>c \<in> set (bs @ [b]). length c \<le> 100"
    using full le by auto
  have rest: "\<forall>c \<in> set (butlast (bs @ [b])). length c = 100"
    using full by simp
  show ?thesis
  proof (intro exI [of _ "bs @ [b]"] conjI impI)
    show "batchSignatures h = Inr (bs @ [b])" by (rule eq)
    show "concat (bs @ [b]) = map signature h" by (rule cat)
    show "\<forall>c \<in> set (bs @ [b]). length c \<le> 100" by (rule bound)
    show "\<forall>c \<in> set (butlast (bs @ [b])). length c = 100" by (rule rest)
    show "map length (bs @ [b]) = [100, 100, 50]" if "length h = 250"
      using that by (rule sizes)
  qed
qed

theorem batchSignatures_partition_witness:
  "\<exists>batches. batchSignatures (replicate 250 \<lparr>signature = ''sig''\<rparr>) = Inr batches
     \<and> concat batches = replicate 250 ''sig''
     \<and> map length batches = [100, 100, 50]"
proof -
  have len: "length (replicate 250 \<lparr>signature = ''sig''\<rparr>) = 250"
    by (simp only: length_replicate)
  have sigs: "map signature (replicate 250 \<lparr>signature = ''sig''\<rparr>) = replicate 250 ''sig''"
    by (simp only: map_replicate pastTx.simps)
  from batchSignatures_partition [of "replicate 250 \<lparr>signature = ''sig''\<rparr>"]
  obtain batches where
    "batchSignatures (replicate 250 \<lparr>signature = ''sig''\<rparr>) = Inr batches"
    and "concat batches = replicate 250 ''sig''"
    and "(250::nat) = 250 \<longrightarrow> map length batches = [100, 100, 50]"
    unfolding len sigs by (elim exE conjE)
  then show ?thesis
    by (intro exI [of _ batches]) (simp only: simp_thms)
qed

section \<open>Properties of the scan\<close>

lemma find_append_first:
  "find P (xs @ ys) = (case find P xs of None \<Rightarrow> find P ys | Some x \<Rightarrow> Some x)"
  by (induction xs) auto

lemma scanRow_find:
  assumes "tag \<noteq> instructions_refund \<longrightarrow> validation = Some v"
  shows "scanRow validation sp tag (map Some ts) = Inr (find (accepted v sp tag) ts)"
  using assms
proof (induction ts)
  case Nil
  show ?case by simp
next
  case (Cons t ts)
  show ?case
  proof (cases "transaction.raw t")
    case None
    with Cons show ?thesis by (simp add: accepted_def)
  next
    case (Some payload)
    with Cons show ?thesis
      by (cases "tag = instructions_refund") (simp_all add: accepted_def)
  qed
qed

lemma scanMatrix_find:
  assumes "tag \<noteq> instructions_refund \<longrightarrow> validation = Some v"
  shows "scanMatrix validation sp tag (map (map Some) tss)
           = Inr (find (accepted v sp tag) (concat tss))"
proof (induction tss)
  case Nil
  show ?case by simp
next
  case (Cons ts tss)
  show ?case
  proof (cases "find (accepted v sp tag) ts")
    case None
    with Cons.IH scanRow_find [OF assms, of sp ts] show ?thesis
      by (simp add: find_append_first)
  next
    case (Some t)
    with scanRow_find [OF assms, of sp ts] show ?thesis
      by (simp add: find_append_first)
  qed
qed

lemma promiseAll_Resolved:
  "promiseAll (map Resolved xs) = Inr xs"
  by (induction xs) simp_all

lemma map_Some_map_filter:
  "None \<notin> set row \<Longrightarrow> map Some (List.map_filter id row) = row"
proof (induction row)
  case Nil
  show ?case by (simp add: List.map_filter_def)
next
  case (Cons entry row)
  then show ?case
    by (cases entry) (simp_all add: List.map_filter_def)
qed

lemma fetchedRow_Resolved:
  assumes "resolvesWithoutNull rpc refs"
  shows "getParsedAndConfirmedTransactions rpc refs = Resolved (map Some (fetchedRow rpc refs))"
proof (cases "getParsedAndConfirmedTransactions rpc refs")
  case (Resolved row)
  with assms have "None \<notin> set row"
    by (simp add: resolvesWithoutNull_def)
  then have "map Some (List.map_filter id row) = row"
    by (rule map_Some_map_filter)
  with Resolved show ?thesis
    by (simp add: fetchedRow_def)
next
  case Rejected
  with assms show ?thesis
    by (simp add: resolvesWithoutNull_def)
qed

lemma fetched_rows:
  assumes "\<forall>refs \<in> set batch. resolvesWithoutNull rpc refs"
  shows "map (getParsedAndConfirmedTransactions rpc) batch
           = map Resolved (map (map Some) (map (fetchedRow rpc) batch))"
  using assms
proof (induction batch)
  case Nil
  show ?case by simp
next
  case (Cons refs batch)
  then have tail: "map (getParsedAndConfirmedTransactions rpc) batch
                = map Resolved (map (map Some) (map (fetchedRow rpc) batch))"
    by simp
  from Cons.prems have "resolvesWithoutNull rpc refs"
    by simp
  then have "getParsedAndConfirmedTransactions rpc refs = Resolved (map Some (fetchedRow rpc refs))"
    by (rule fetchedRow_Resolved)
  with tail show ?case
    by simp
qed

section \<open>The example data, evaluated\<close>

lemma exampleBatch:
  "batchSignatures [\<lparr>signature = ''s1''\<rparr>, \<lparr>signature = ''s2''\<rparr>, \<lparr>signature = ''s3''\<rparr>]
     = Inr [[''s1'', ''s2'', ''s3'']]"
  by (simp add: batchSignatures_def pushAt_def MAX_NUMBER_OF_REQUESTS_def)

lemma exampleSellerHistory:
  "getAddressHistory exampleRpc ''seller''
     = Resolved [\<lparr>signature = ''s1''\<rparr>, \<lparr>signature = ''s2''\<rparr>, \<lparr>signature = ''s3''\<rparr>]"
  by (simp add: exampleRpc_def exampleHistory_def)

lemma exampleSellerFetch:
  "getParsedAndConfirmedTransactions exampleRpc [''s1'', ''s2'', ''s3'']
     = Resolved [Some transferTx, Some otherInitTx, Some matchingInitTx]"
  by (simp add: exampleRpc_def exampleLookup_def)

lemma exampleSellerTransactions:
  "historyTransactions exampleRpc [\<lparr>signature = ''s1''\<rparr>, \<lparr>signature = ''s2''\<rparr>, \<lparr>signature = ''s3''\<rparr>]
     = [transferTx, otherInitTx, matchingInitTx]"
  by (simp add: historyTransactions_def exampleBatch fetchedRow_def exampleSellerFetch
      List.map_filter_def)

lemma exampleNobodyHistory:
  "getAddressHistory exampleRpc ''nobody'' = Resolved []"
  by (simp add: exampleRpc_def exampleHistory_def)

lemma exampleUnknownFetch:
  "getParsedAndConfirmedTransactions exampleRpc [''zz''] = Resolved [None]"
  by (simp add: exampleRpc_def exampleLookup_def)

section \<open>The scan returns the first accepted transaction\<close>

text \<open>
  C1. Let the history of the address be fetched, and let every batch fetch
  resolve without a \<open>null\<close> entry; let a validation predicate be supplied
  unless the requested tag is the refund tag. Then
  \<open>_findTransactionByAddress\<close> returns the first transaction, in history
  order, that is accepted, and returns nothing when no transaction is. A
  transaction is accepted when its payload carries the requested tag and,
  for a tag other than the refund tag, the predicate holds of the swap
  parameters and the payload; for the refund tag the tag alone decides.
\<close>

theorem findTransactionByAddress_first_accepted:
  assumes "getAddressHistory rpc addr = Resolved h"
    and "batchSignatures h = Inr batch"
    and "\<forall>refs \<in> set batch. resolvesWithoutNull rpc refs"
    and "tag \<noteq> instructions_refund \<longrightarrow> validation = Some v"
  shows "fst (findTransactionByAddress rpc addr sp tag validation)
           = Inr (find (accepted v sp tag) (historyTransactions rpc h))"
proof -
  have "promiseAll (map (getParsedAndConfirmedTransactions rpc) batch)
          = Inr (map (map Some) (map (fetchedRow rpc) batch))"
    by (simp only: fetched_rows [OF assms(3)] promiseAll_Resolved)
  moreover have "historyTransactions rpc h = concat (map (fetchedRow rpc) batch)"
    using assms(2) by (simp add: historyTransactions_def)
  ultimately show ?thesis
    using assms(1,2) scanMatrix_find [OF assms(4), of sp "map (fetchedRow rpc) batch"]
    by (simp add: findTransactionByAddress_def)
qed

theorem findTransactionByAddress_first_accepted_witness:
  "fst (findTransactionByAddress exampleRpc ''seller'' exampleParams instructions_init (Some compareParams))
     = Inr (Some matchingInitTx)"
proof -
  have fetch: "\<forall>refs \<in> set [[''s1'', ''s2'', ''s3'']]. resolvesWithoutNull exampleRpc refs"
    by (simp add: resolvesWithoutNull_def exampleSellerFetch)
  have val: "instructions_init \<noteq> instructions_refund \<longrightarrow> Some compareParams = Some compareParams"
    by simp
  have "find (accepted compareParams exampleParams instructions_init)
          [transferTx, otherInitTx, matchingInitTx] = Some matchingInitTx"
    by (simp add: accepted_def compareParams_def exampleParams_def transferTx_def otherInitTx_def
        matchingInitTx_def otherInitData_def matchingInitData_def instructions_init_def
        instructions_refund_def)
  with findTransactionByAddress_first_accepted
         [OF exampleSellerHistory exampleBatch fetch val, of exampleParams]
  show ?thesis
    by (simp only: exampleSellerTransactions)
qed

section \<open>The secret of an accepted claim transaction\<close>

text \<open>
  C2. The claim transaction of the example carries the revealed secret in its
  payload and has no \<open>secret\<close> of its own. The claim finder accepts it (the
  hash of the payload's secret is the secret hash of the swap) and returns it
  as it was fetched: the \<open>secret\<close> of the returned transaction is absent, and
  is not the secret of the payload.
\<close>

theorem claim_secret_not_from_payload:
  "fst (findClaimSwapTransaction sha256 exampleRpc (exampleParams\<lparr>secretHash := sha256 ''s3cr3t''\<rparr>) ''s3'')
     = Inr (Some claimTx)
   \<and> transaction.secret claimTx = None
   \<and> map_option rawData.secret (transaction.raw claimTx) = Some ''s3cr3t''"
  by (simp add: findClaimSwapTransaction_def findTransactionByAddress_def exampleRpc_def
      exampleLookup_def exampleHistory_def matchingInitTx_def matchingInitData_def claimTx_def
      claimData_def batchSignatures_def pushAt_def MAX_NUMBER_OF_REQUESTS_def
      instructions_claim_def instructions_refund_def validateSecret_def exampleParams_def)

section \<open>An empty history\<close>

text \<open>
  C10. For the empty history the batcher returns one batch that holds no
  signature. So the scan of an address whose history is empty issues, after
  the history lookup, exactly one batch fetch, and its reference list is empty.
\<close>

theorem batchSignatures_empty_history:
  "batchSignatures [] = Inr [[]] \<and>
   (getAddressHistory rpc addr = Resolved [] \<longrightarrow>
      snd (findTransactionByAddress rpc addr sp tag validation)
        = [GetAddressHistory addr, GetParsedAndConfirmedTransactions []])"
  by (simp add: batchSignatures_def findTransactionByAddress_def Let_def split: sum.splits)

theorem batchSignatures_empty_history_witness:
  "getAddressHistory exampleRpc ''nobody'' = Resolved [] \<and>
   snd (findTransactionByAddress exampleRpc ''nobody'' exampleParams instructions_init (Some compareParams))
     = [GetAddressHistory ''nobody'', GetParsedAndConfirmedTransactions []]"
  using batchSignatures_empty_history
          [of exampleRpc "''nobody''" exampleParams instructions_init "Some compareParams"]
        exampleNobodyHistory
  by simp

section \<open>The initiation transaction is not yet there\<close>

text \<open>
  C6. When the fetch of the initiation transaction resolves with no
  transaction (an empty list, or \<open>null\<close> in the first place), the claim finder
  and the refund finder both end in \<open>PendingTxError\<close> with the message of the
  source, after that one fetch and no other call; neither returns the absent
  result of a scan that found nothing.
\<close>

theorem pending_initiation:
  assumes "getParsedAndConfirmedTransactions rpc [initiationTxHash] = Resolved fetched"
    and "fetched = [] \<or> (\<exists>others. fetched = None # others)"
  shows "findClaimSwapTransaction sha256 rpc sp initiationTxHash
           = (Inl (PendingTxError (''Transaction receipt is not available: '' @ initiationTxHash)),
              [GetParsedAndConfirmedTransactions [initiationTxHash]])
         \<and> findRefundSwapTransaction rpc sp initiationTxHash
           = (Inl (PendingTxError (''Transaction receipt is not available: '' @ initiationTxHash)),
              [GetParsedAndConfirmedTransactions [initiationTxHash]])
         \<and> fst (findClaimSwapTransaction sha256 rpc sp initiationTxHash) \<noteq> Inr None
         \<and> fst (findRefundSwapTransaction rpc sp initiationTxHash) \<noteq> Inr None"
  using assms
  by (auto simp: findClaimSwapTransaction_def findRefundSwapTransaction_def pendingTxError_def)

theorem pending_initiation_witness:
  "findClaimSwapTransaction exampleHash exampleRpc exampleParams ''zz''
     = (Inl (PendingTxError ''Transaction receipt is not available: zz''),
        [GetParsedAndConfirmedTransactions [''zz'']])
   \<and> findRefundSwapTransaction exampleRpc exampleParams ''zz''
     = (Inl (PendingTxError ''Transaction receipt is not available: zz''),
        [GetParsedAndConfirmedTransactions [''zz'']])"
proof -
  have "[None] = [] \<or> (\<exists>others. [None :: transaction option] = None # others)"
    by simp
  from pending_initiation [OF exampleUnknownFetch this, of exampleHash exampleParams]
  show ?thesis by simp
qed

section \<open>The initiate predicate\<close>

text \<open>
  C7. The swap parameters of the example and the matching payload agree in
  all five fields, and \<open>_compareParams\<close> is true of them. With the same
  recipient, or the same refund address, given as an \<open>Address\<close> object
  instead of a string, the five fields still agree and \<open>_compareParams\<close> is
  false: it is false of every \<open>Address\<close> object, whatever the payload, since
  it compares with \<open>===\<close> where the initiate finder converts with
  \<open>addressToString\<close>.
\<close>

theorem compareParams_address_object:
  "compareParams exampleParams matchingInitData
   \<and> \<not> compareParams (exampleParams\<lparr>recipientAddress := AddressObject ''buyer''\<rparr>) matchingInitData
   \<and> \<not> compareParams (exampleParams\<lparr>refundAddress := AddressObject ''seller''\<rparr>) matchingInitData
   \<and> \<not> compareParams (sp\<lparr>recipientAddress := AddressObject a\<rparr>) p
   \<and> \<not> compareParams (sp\<lparr>refundAddress := AddressObject a\<rparr>) p"
  by (simp add: compareParams_def exampleParams_def matchingInitData_def)

section \<open>Numbers that are exact\<close>








section \<open>Fee estimation\<close>

lemma selectCoins_strategy:
  "selectCoins cs acc utxos targets r fixedArg
     = coinselectStrat cs acc (defaultFixedInputs fixedArg)
         (selectUtxos utxos (defaultFixedInputs fixedArg)) targets \<lceil>r\<rceil>"
  by (simp add: selectCoins_def Let_def)

lemma find_None_pinned:
  "(find (\<lambda>input. utxo.vout input = utxo.vout u \<and> utxo.txid input = utxo.txid u) fixedInputs = None)
     \<longleftrightarrow> \<not> (\<exists>input \<in> set fixedInputs. utxo.txid input = utxo.txid u \<and> utxo.vout input = utxo.vout u)"
  by (auto simp: find_None_iff)






section \<open>Coin selection\<close>

text \<open>
  C4. \<open>selectCoins\<close> raises no error of its own and hands back what the
  strategy returned. When the strategy it runs finds no solution, and so
  leaves \<open>inputs\<close> and \<open>outputs\<close> out, \<open>selectCoins\<close> returns normally an
  object whose \<open>inputs\<close> and \<open>outputs\<close> are absent, with the fee of the
  strategy; telling this from a selection is left to the caller.
\<close>

theorem selectCoins_passes_failure_on:
  assumes "inputs (coinselectStrat cs acc (defaultFixedInputs fixedArg) (selectUtxos utxos (defaultFixedInputs fixedArg)) targets \<lceil>r\<rceil>) = None"
    and "outputs (coinselectStrat cs acc (defaultFixedInputs fixedArg) (selectUtxos utxos (defaultFixedInputs fixedArg)) targets \<lceil>r\<rceil>) = None"
  shows "selectCoins cs acc utxos targets r fixedArg
           = \<lparr>inputs = None, outputs = None,
              coinSelection.fee = coinSelection.fee
                (coinselectStrat cs acc (defaultFixedInputs fixedArg) (selectUtxos utxos (defaultFixedInputs fixedArg)) targets \<lceil>r\<rceil>)\<rparr>"
  using assms by (simp add: selectCoins_def Let_def)

theorem selectCoins_passes_failure_on_witness:
  "selectCoins noSolution noSolution [utxoA, utxoB, utxoC] [100000] 1 (Some [utxoB])
     = \<lparr>inputs = None, outputs = None, coinSelection.fee = 488\<rparr>"
proof -
  have run: "coinselectStrat noSolution noSolution (defaultFixedInputs (Some [utxoB]))
               (selectUtxos [utxoA, utxoB, utxoC] (defaultFixedInputs (Some [utxoB])))
               [100000] \<lceil>1 :: rat\<rceil>
             = \<lparr>inputs = None, outputs = None, coinSelection.fee = 488\<rparr>"
    by (simp add: coinselectStrat_def selectUtxos_def noSolution_def defaultFixedInputs_def
        utxoA_def utxoB_def utxoC_def)
  have "inputs (coinselectStrat noSolution noSolution (defaultFixedInputs (Some [utxoB]))
               (selectUtxos [utxoA, utxoB, utxoC] (defaultFixedInputs (Some [utxoB])))
               [100000] \<lceil>1 :: rat\<rceil>) = None"
    and "outputs (coinselectStrat noSolution noSolution (defaultFixedInputs (Some [utxoB]))
               (selectUtxos [utxoA, utxoB, utxoC] (defaultFixedInputs (Some [utxoB])))
               [100000] \<lceil>1 :: rat\<rceil>) = None"
    by (simp_all only: run coinSelection.simps)
  from selectCoins_passes_failure_on [OF this]
  show ?thesis
    by (simp only: run coinSelection.simps)
qed

text \<open>
  Three coins of 5000, 3000 and 1000 cannot pay 100000. With a strategy that
  answers as \<open>coinselect\<close> does there, \<open>selectCoins\<close> returns an object with a
  fee and no selection; it is an ordinary return value.
\<close>

theorem selectCoins_no_solution_returned:
  "selectCoins noSolution noSolution [utxoA, utxoB, utxoC] [100000] 1 None
     = \<lparr>inputs = None, outputs = None, coinSelection.fee = 488\<rparr>"
  by (simp add: selectCoins_strategy coinselectStrat_def selectUtxos_def noSolution_def
      defaultFixedInputs_def)

text \<open>
  C5. With a list of fixed inputs that is not empty, \<open>selectCoins\<close> is the
  accumulative strategy on the fixed inputs, in their order, followed by the
  coins of \<open>utxos\<close>, in their order, for which no fixed input has the same
  \<open>txid\<close> and the same \<open>vout\<close>. With an empty list, or with none given, it
  is the other strategy on \<open>utxos\<close> unchanged. The rate is rounded up in
  both cases.
\<close>

theorem selectCoins_candidates:
  "(fixedInputs \<noteq> [] \<longrightarrow>
      selectCoins cs acc utxos targets r (Some fixedInputs)
        = acc (fixedInputs @
               filter (\<lambda>u. \<not> (\<exists>input \<in> set fixedInputs.
                                  utxo.txid input = utxo.txid u \<and> utxo.vout input = utxo.vout u)) utxos)
            targets \<lceil>r\<rceil>)
   \<and> selectCoins cs acc utxos targets r (Some []) = cs utxos targets \<lceil>r\<rceil>
   \<and> selectCoins cs acc utxos targets r None = cs utxos targets \<lceil>r\<rceil>"
  by (simp add: selectCoins_strategy coinselectStrat_def selectUtxos_def find_None_pinned
      defaultFixedInputs_def)

theorem selectCoins_candidates_witness:
  "selectCoins noSolution spendAll [utxoA, utxoB, utxoC] [6000] (3 / 2) (Some [utxoB])
     = spendAll [utxoB, utxoA, utxoC] [6000] 2"
proof -
  have "[utxoB] \<noteq> []"
    by simp
  moreover have "filter (\<lambda>u. \<not> (\<exists>input \<in> set [utxoB].
                    utxo.txid input = utxo.txid u \<and> utxo.vout input = utxo.vout u)) [utxoA, utxoB, utxoC]
                  = [utxoA, utxoC]"
    by (simp add: utxoA_def utxoB_def utxoC_def)
  moreover have "\<lceil>3 / 2 :: rat\<rceil> = 2"
    by (simp add: ceiling_eq_iff)
  ultimately show ?thesis
    using selectCoins_candidates [of "[utxoB]" noSolution spendAll "[utxoA, utxoB, utxoC]" "[6000]" "3 / 2"]
    by simp
qed

section \<open>The normalised transaction\<close>



end
